theory Spec2Isabelle
  imports Main
begin

section \<open>The logger of logger.h / logger.c\<close>

subsection \<open>Data model\<close>

text \<open>
  A \<open>FILE*\<close> is an optional stream handle (\<open>None\<close> is the null pointer), a
  \<open>const char*\<close> an optional string, and a \<open>Logger*\<close> an optional Logger value
  (the pointee); a function that writes through the pointer returns the new pointee.
  A \<open>LogLevel\<close> is the enum's integer, since the code compares levels numerically and
  \<open>level_name\<close> has a default branch for values outside the enum.
\<close>

abbreviation LOG_DEBUG :: int where "LOG_DEBUG \<equiv> 10"
abbreviation LOG_INFO :: int where "LOG_INFO \<equiv> 20"
abbreviation LOG_WARNING :: int where "LOG_WARNING \<equiv> 30"
abbreviation LOG_ERROR :: int where "LOG_ERROR \<equiv> 40"
abbreviation LOG_CRITICAL :: int where "LOG_CRITICAL \<equiv> 50"

abbreviation EINVAL :: int where "EINVAL \<equiv> 22"

abbreviation ESC :: char where "ESC \<equiv> CHR 0x1B"
abbreviation NEWLINE :: char where "NEWLINE \<equiv> CHR 0x0A"
abbreviation NUL :: char where "NUL \<equiv> CHR 0x00"

text \<open>
  A string handed over as \<open>const char*\<close> is read up to its terminator: the bytes before
  the first NUL.
\<close>

definition c_str :: "string \<Rightarrow> string" where
  "c_str s = takeWhile (\<lambda>c. c \<noteq> NUL) s"

text \<open>
  The life of the platform mutex stored in the Logger: raw memory (after \<open>memset\<close>),
  initialised and free, initialised and held, destroyed.
\<close>

datatype logger_mutex_t = MtxRaw | MtxUnlocked | MtxLocked | MtxDestroyed

record Logger =
  file_sink :: "nat option"
  stream :: "nat option"
  level :: int
  name :: "string option"
  timestamps :: bool
  colors :: bool
  owns_file :: bool
  locking :: bool
  lock :: logger_mutex_t
  initialized :: bool

text \<open>The stdio buffering modes the code selects with \<open>setvbuf\<close>.\<close>

datatype buf_mode = IOLBF nat | IOFBF nat

text \<open>
  What the process does to its streams, in the order it happens: bytes handed to a
  stream, flushes, closes, opens and buffer configuration.
\<close>

datatype io_event =
  Write nat string
  | Flush nat
  | Close nat
  | Open string nat
  | Setvbuf nat buf_mode

text \<open>
  The arguments of a variadic call after the default promotions: an \<open>int\<close> (a \<open>char\<close>
  arrives as one), a string, or a value of any other type, which only the C library's
  formatter interprets.
\<close>

datatype fmt_arg = ArgInt int | ArgStr string | ArgOther nat

text \<open>
  The world outside the Logger value: \<open>errno\<close>, the trace of stream operations, and the
  answers of the environment: is the handle a terminal, and which code the query leaves
  in \<open>errno\<close> when it is not (if the platform leaves one); what opening a path in
  append mode gives, an error code or a fresh handle; whether the platform sets up a
  mutex; the UTC time as \<open>strftime\<close> renders it; and what the C library's formatter
  writes for a template that starts at a conversion specification other than
  \<open>%%\<close>, \<open>%s\<close>, \<open>%d\<close> and \<open>%c\<close>, given the arguments not yet consumed
  (\<open>None\<close> where C leaves the call undefined).
\<close>

record world =
  errno :: int
  trace :: "io_event list"
  isatty :: "nat \<Rightarrow> bool"
  isatty_errno :: "nat \<Rightarrow> int option"
  fopen_result :: "string \<Rightarrow> int + nat"
  mutex_init_ok :: bool
  now_utc :: string
  libc_conversion :: "string \<Rightarrow> fmt_arg list \<Rightarrow> string option"

subsection \<open>Platform primitives\<close>

text \<open>
  The stdio calls are recorded in the trace and, apart from \<open>fopen\<close>, taken to succeed
  without touching \<open>errno\<close>. \<open>fputs\<close> writes its argument up to the terminator;
  \<open>fprintf\<close> is given the expansion of its template. The terminal query
  \<open>LOGGER_ISATTY\<close> answers from the world and, on a stream that is not a terminal,
  stores the code the platform leaves in \<open>errno\<close>. The mutex primitives act on the
  state of the mutex and do not touch \<open>errno\<close>: locking a free mutex holds it,
  unlocking a held one frees it, destroying leaves it destroyed, and an operation the
  platform does not define for the current state (locking a destroyed mutex, destroying
  one twice) leaves the state as it is.
\<close>

definition fputs :: "string \<Rightarrow> nat \<Rightarrow> world \<Rightarrow> world" where
  "fputs s out w = w\<lparr>trace := trace w @ [Write out (c_str s)]\<rparr>"

definition fprintf :: "nat \<Rightarrow> string \<Rightarrow> world \<Rightarrow> world" where
  "fprintf out expansion w = w\<lparr>trace := trace w @ [Write out expansion]\<rparr>"

definition fputc :: "char \<Rightarrow> nat \<Rightarrow> world \<Rightarrow> world" where
  "fputc c out w = w\<lparr>trace := trace w @ [Write out [c]]\<rparr>"

definition fflush :: "nat \<Rightarrow> world \<Rightarrow> world" where
  "fflush out w = w\<lparr>trace := trace w @ [Flush out]\<rparr>"


definition setvbuf :: "nat \<Rightarrow> buf_mode \<Rightarrow> world \<Rightarrow> world" where
  "setvbuf out m w = w\<lparr>trace := trace w @ [Setvbuf out m]\<rparr>"

text \<open>\<open>fopen(path, "a")\<close>: a failure stores the native error code in \<open>errno\<close>.\<close>

definition fopen :: "string \<Rightarrow> world \<Rightarrow> nat option \<times> world" where
  "fopen path w =
     (case fopen_result w path of
        Inl e \<Rightarrow> (None, w\<lparr>errno := e\<rparr>)
      | Inr h \<Rightarrow> (Some h, w\<lparr>trace := trace w @ [Open path h]\<rparr>))"

definition LOGGER_ISATTY :: "nat \<Rightarrow> world \<Rightarrow> bool \<times> world" where
  "LOGGER_ISATTY h w =
     (if isatty w h then (True, w)
      else (False, (case isatty_errno w h of None \<Rightarrow> w | Some e \<Rightarrow> w\<lparr>errno := e\<rparr>)))"

definition LOGGER_MUTEX_INIT_OK :: "logger_mutex_t \<Rightarrow> world \<Rightarrow> bool \<times> logger_mutex_t" where
  "LOGGER_MUTEX_INIT_OK m w = (if mutex_init_ok w then (True, MtxUnlocked) else (False, m))"

definition LOGGER_MUTEX_LOCK :: "logger_mutex_t \<Rightarrow> logger_mutex_t" where
  "LOGGER_MUTEX_LOCK m = (case m of MtxUnlocked \<Rightarrow> MtxLocked | _ \<Rightarrow> m)"

definition LOGGER_MUTEX_UNLOCK :: "logger_mutex_t \<Rightarrow> logger_mutex_t" where
  "LOGGER_MUTEX_UNLOCK m = (case m of MtxLocked \<Rightarrow> MtxUnlocked | _ \<Rightarrow> m)"

definition LOGGER_MUTEX_DESTROY :: "logger_mutex_t \<Rightarrow> logger_mutex_t" where
  "LOGGER_MUTEX_DESTROY m = MtxDestroyed"

subsection \<open>Configuration setters\<close>

definition logger_set_level :: "Logger option \<Rightarrow> int \<Rightarrow> world \<Rightarrow> Logger option \<times> world" where
  "logger_set_level lg lv w =
     (case lg of
        None \<Rightarrow> (None, w\<lparr>errno := EINVAL\<rparr>)
      | Some l \<Rightarrow> (Some (l\<lparr>level := lv\<rparr>), w))"

definition logger_set_name :: "Logger option \<Rightarrow> string option \<Rightarrow> world \<Rightarrow> Logger option \<times> world" where
  "logger_set_name lg nm w =
     (case lg of
        None \<Rightarrow> (None, w\<lparr>errno := EINVAL\<rparr>)
      | Some l \<Rightarrow> (Some (l\<lparr>name := nm\<rparr>), w))"

definition logger_enable_timestamps :: "Logger option \<Rightarrow> bool \<Rightarrow> world \<Rightarrow> Logger option \<times> world" where
  "logger_enable_timestamps lg on w =
     (case lg of
        None \<Rightarrow> (None, w\<lparr>errno := EINVAL\<rparr>)
      | Some l \<Rightarrow> (Some (l\<lparr>timestamps := on\<rparr>), w))"

definition logger_enable_colors :: "Logger option \<Rightarrow> bool \<Rightarrow> world \<Rightarrow> Logger option \<times> world" where
  "logger_enable_colors lg on w =
     (case lg of
        None \<Rightarrow> (None, w\<lparr>errno := EINVAL\<rparr>)
      | Some l \<Rightarrow> (Some (l\<lparr>colors := on\<rparr>), w))"

definition logger_enable_locking :: "Logger option \<Rightarrow> bool \<Rightarrow> world \<Rightarrow> Logger option \<times> world" where
  "logger_enable_locking lg on w =
     (case lg of
        None \<Rightarrow> (None, w\<lparr>errno := EINVAL\<rparr>)
      | Some l \<Rightarrow> (Some (l\<lparr>locking := on\<rparr>), w))"

subsection \<open>Level names and colours\<close>

definition level_name :: "int \<Rightarrow> string" where
  "level_name lv =
     (if lv = LOG_DEBUG then ''DEBUG''
      else if lv = LOG_INFO then ''INFO''
      else if lv = LOG_WARNING then ''WARNING''
      else if lv = LOG_ERROR then ''ERROR''
      else if lv = LOG_CRITICAL then ''CRITICAL''
      else ''LVL?'')"

definition level_color :: "int \<Rightarrow> string" where
  "level_color lv =
     (if lv = LOG_DEBUG then ESC # ''[2m''
      else if lv = LOG_INFO then ESC # ''[0m''
      else if lv = LOG_WARNING then ESC # ''[33m''
      else if lv = LOG_ERROR then ESC # ''[31m''
      else if lv = LOG_CRITICAL then ESC # ''[1;41m''
      else ESC # ''[0m'')"

definition is_tty :: "nat option \<Rightarrow> world \<Rightarrow> bool \<times> world" where
  "is_tty s w = (case s of None \<Rightarrow> (False, w) | Some h \<Rightarrow> LOGGER_ISATTY h w)"

text \<open>
  \<open>now_iso8601\<close> leaves in the caller's buffer what \<open>strftime\<close> renders for the current
  UTC second; the world supplies that text.
\<close>

definition now_iso8601 :: "world \<Rightarrow> string" where
  "now_iso8601 w = now_utc w"

subsection \<open>Formatting done by the C library\<close>

text \<open>The conversion \<open>%-8s\<close>: left-justified, padded with spaces to the width.\<close>

definition fmt_ljust :: "nat \<Rightarrow> string \<Rightarrow> string" where
  "fmt_ljust n s = s @ replicate (n - length s) CHR '' ''"

text \<open>The conversion \<open>%d\<close>.\<close>

definition digit_char :: "nat \<Rightarrow> char" where
  "digit_char d = ''0123456789'' ! (d mod 10)"

function dec_nat :: "nat \<Rightarrow> string" where
  "dec_nat n = (if n < 10 then [digit_char n] else dec_nat (n div 10) @ [digit_char (n mod 10)])"
  by pat_completeness auto
termination
  by (relation "measure id") auto

declare dec_nat.simps [simp del]

definition dec_int :: "int \<Rightarrow> string" where
  "dec_int i = (if i < 0 then CHR ''-'' # dec_nat (nat (- i)) else dec_nat (nat i))"

text \<open>
  The expansion of a format template over the arguments. The conversions \<open>%%\<close>,
  \<open>%s\<close>, \<open>%d\<close> and \<open>%c\<close> are spelled out; from any other conversion
  specification on, the expansion is what the C library (the argument \<open>lib\<close>) writes.
  \<open>None\<close> is a call C leaves undefined: a template that ends inside a conversion, or a
  missing or ill-typed argument.
\<close>

fun printf_render ::
  "(string \<Rightarrow> fmt_arg list \<Rightarrow> string option) \<Rightarrow> string \<Rightarrow> fmt_arg list \<Rightarrow> string option" where
  "printf_render lib [] args = Some []"
| "printf_render lib [c] args = (if c = CHR ''%'' then None else Some [c])"
| "printf_render lib (c # d # cs) args =
     (if c \<noteq> CHR ''%'' then map_option ((#) c) (printf_render lib (d # cs) args)
      else if d = CHR ''%'' then map_option ((#) CHR ''%'') (printf_render lib cs args)
      else if d = CHR ''s'' then
        (case args of
           ArgStr t # rest \<Rightarrow> map_option ((@) (c_str t)) (printf_render lib cs rest)
         | _ \<Rightarrow> None)
      else if d = CHR ''d'' then
        (case args of
           ArgInt i # rest \<Rightarrow> map_option ((@) (dec_int i)) (printf_render lib cs rest)
         | _ \<Rightarrow> None)
      else if d = CHR ''c'' then
        (case args of
           ArgInt i # rest \<Rightarrow> map_option ((#) (char_of i)) (printf_render lib cs rest)
         | _ \<Rightarrow> None)
      else lib (c # d # cs) args)"

text \<open>
  \<open>vsnprintf(buf, n, fmt, args)\<close> reads the template up to its terminator and keeps at
  most \<open>n - 1\<close> bytes of the expansion in the buffer.
\<close>

definition vsnprintf :: "nat \<Rightarrow> string \<Rightarrow> fmt_arg list \<Rightarrow> world \<Rightarrow> string option" where
  "vsnprintf n fmt args w =
     map_option (take (n - 1)) (printf_render (libc_conversion w) (c_str fmt) args)"

subsection \<open>Initialisation and shutdown\<close>

text \<open>The Logger after \<open>memset(lg, 0, sizeof *lg)\<close>.\<close>

definition Logger_zero :: Logger where
  "Logger_zero =
     \<lparr>file_sink = None, stream = None, level = 0, name = None, timestamps = False,
      colors = False, owns_file = False, locking = False, lock = MtxRaw,
      initialized = False\<rparr>"

definition init_common :: "Logger option \<Rightarrow> int \<Rightarrow> world \<Rightarrow> bool \<times> Logger option \<times> world" where
  "init_common lg lv w =
     (case lg of
        None \<Rightarrow> (False, None, w\<lparr>errno := EINVAL\<rparr>)
      | Some l0 \<Rightarrow>
          (let l1 = Logger_zero\<lparr>level := lv, timestamps := True, colors := True, locking := True\<rparr>;
               (ok, m) = LOGGER_MUTEX_INIT_OK (lock l1) w;
               l2 = l1\<lparr>lock := m\<rparr>
           in if \<not> ok then (False, Some l2, w)
              else (True, Some (l2\<lparr>initialized := True\<rparr>), w)))"

definition logger_init_stream ::
  "Logger option \<Rightarrow> nat option \<Rightarrow> int \<Rightarrow> world \<Rightarrow> bool \<times> Logger option \<times> world" where
  "logger_init_stream lg strm lv w =
     (case (lg, strm) of
        (Some l0, Some s) \<Rightarrow>
          (case init_common lg lv w of
             (ok, lg1, w1) \<Rightarrow>
               if \<not> ok then (False, lg1, w1)
               else
                 (let lg2 = map_option (\<lambda>l. l\<lparr>stream := strm\<rparr>) lg1;
                      (tty, w2) = LOGGER_ISATTY s w1;
                      w3 = (if tty then setvbuf s (IOLBF 0) w2 else w2)
                  in (True, lg2, w3)))
      | _ \<Rightarrow> (False, lg, w\<lparr>errno := EINVAL\<rparr>))"

definition logger_init_file ::
  "Logger option \<Rightarrow> string option \<Rightarrow> int \<Rightarrow> world \<Rightarrow> bool \<times> Logger option \<times> world" where
  "logger_init_file lg path lv w =
     (case (lg, path) of
        (Some l0, Some p) \<Rightarrow>
          (case init_common lg lv w of
             (ok, lg1, w1) \<Rightarrow>
               if \<not> ok then (False, lg1, w1)
               else
                 (case fopen p w1 of
                    (None, w2) \<Rightarrow>
                      (False, map_option (\<lambda>l. l\<lparr>lock := LOGGER_MUTEX_DESTROY (lock l)\<rparr>) lg1, w2)
                  | (Some fp, w2) \<Rightarrow>
                      (True,
                       map_option (\<lambda>l. l\<lparr>file_sink := Some fp, owns_file := True\<rparr>) lg1,
                       setvbuf fp (IOFBF (2 ^ 20)) w2)))
      | _ \<Rightarrow> (False, lg, w\<lparr>errno := EINVAL\<rparr>))"

definition logger_init_dual ::
  "Logger option \<Rightarrow> string option \<Rightarrow> nat option \<Rightarrow> int \<Rightarrow> world
     \<Rightarrow> bool \<times> Logger option \<times> world" where
  "logger_init_dual lg path strm lv w =
     (case (lg, path, strm) of
        (Some l0, Some p, Some s) \<Rightarrow>
          (case logger_init_file lg path lv w of
             (ok, lg1, w1) \<Rightarrow>
               if \<not> ok then (False, lg1, w1)
               else
                 (let lg2 = map_option (\<lambda>l. l\<lparr>stream := strm\<rparr>) lg1;
                      (tty, w2) = LOGGER_ISATTY s w1;
                      w3 = (if tty then setvbuf s (IOLBF 0) w2 else w2)
                  in (True, lg2, w3)))
      | _ \<Rightarrow> (False, lg, w\<lparr>errno := EINVAL\<rparr>))"


subsection \<open>Emission\<close>

definition emit_one ::
  "nat option \<Rightarrow> bool \<Rightarrow> string \<Rightarrow> string \<Rightarrow> string option \<Rightarrow> int \<Rightarrow> string \<Rightarrow> int
     \<Rightarrow> string \<Rightarrow> string \<Rightarrow> world \<Rightarrow> world" where
  "emit_one out colorize color timestamp nm lv src_file line func msg w =
     (case out of
        None \<Rightarrow> w
      | Some h \<Rightarrow>
          (let w1 = (if colorize then fputs color h w else w);
               w2 = (if c_str timestamp \<noteq> [] then fprintf h (c_str timestamp @ '' '') w1
                     else w1);
               w3 = (case nm of None \<Rightarrow> w2 | Some n \<Rightarrow> fprintf h (''['' @ c_str n @ ''] '') w2);
               w4 = fprintf h (fmt_ljust 8 (level_name lv) @ '' '') w3;
               w5 = fprintf h
                      (c_str src_file @ '':'' @ dec_int line @ '':'' @ c_str func @ '': '') w4;
               w6 = fputs msg h w5;
               w7 = fputc NEWLINE h w6;
               w8 = (if colorize then fputs (ESC # ''[0m'') h w7 else w7)
           in fflush h w8))"

text \<open>
  The variadic path. Its result is \<open>None\<close> where C leaves the expansion of the
  template undefined; the null check and the level filter come before the expansion.
\<close>

definition logger_vlog_impl ::
  "Logger option \<Rightarrow> int \<Rightarrow> string \<Rightarrow> int \<Rightarrow> string \<Rightarrow> string option \<Rightarrow> fmt_arg list
     \<Rightarrow> world \<Rightarrow> (Logger option \<times> world) option" where
  "logger_vlog_impl lg lv src_file line func fmt args w =
     (case (lg, fmt) of
        (Some l, Some f) \<Rightarrow>
          if lv < level l then Some (lg, w)
          else
            (let l1 = (if locking l then l\<lparr>lock := LOGGER_MUTEX_LOCK (lock l)\<rparr> else l);
                 ts = (if timestamps l1 then now_iso8601 w else [])
             in case vsnprintf 2048 f args w of
                  None \<Rightarrow> None
                | Some buf \<Rightarrow>
                    (let color = level_color lv;
                         (stream_color, w0) =
                           (if colors l1 \<and> stream l1 \<noteq> None then is_tty (stream l1) w
                            else (False, w));
                         file_color = False;
                         w1 = (case stream l1 of
                                 None \<Rightarrow> w0
                               | Some s \<Rightarrow>
                                   emit_one (stream l1) stream_color color ts (name l1) lv
                                     src_file line func buf w0);
                         w2 = (case file_sink l1 of
                                 None \<Rightarrow> w1
                               | Some fh \<Rightarrow>
                                   emit_one (file_sink l1) file_color [] ts (name l1) lv
                                     src_file line func buf w1);
                         l2 = (if locking l1 then l1\<lparr>lock := LOGGER_MUTEX_UNLOCK (lock l1)\<rparr>
                               else l1)
                     in Some (Some l2, w2)))
      | _ \<Rightarrow> Some (lg, w\<lparr>errno := EINVAL\<rparr>))"

definition logger_log_impl ::
  "Logger option \<Rightarrow> int \<Rightarrow> string \<Rightarrow> int \<Rightarrow> string \<Rightarrow> string option \<Rightarrow> fmt_arg list
     \<Rightarrow> world \<Rightarrow> (Logger option \<times> world) option" where
  "logger_log_impl lg lv src_file line func fmt args w =
     (if lg = None \<or> fmt = None then Some (lg, w\<lparr>errno := EINVAL\<rparr>)
      else logger_vlog_impl lg lv src_file line func fmt args w)"

definition logger_write ::
  "Logger option \<Rightarrow> int \<Rightarrow> string \<Rightarrow> int \<Rightarrow> string \<Rightarrow> string option \<Rightarrow> world
     \<Rightarrow> Logger option \<times> world" where
  "logger_write lg lv src_file line func msg w =
     (case (lg, msg) of
        (Some l, Some m) \<Rightarrow>
          if lv < level l then (lg, w)
          else
            (let l1 = (if locking l then l\<lparr>lock := LOGGER_MUTEX_LOCK (lock l)\<rparr> else l);
                 ts = (if timestamps l1 then now_iso8601 w else []);
                 color = level_color lv;
                 (stream_color, w0) =
                   (if colors l1 \<and> stream l1 \<noteq> None then is_tty (stream l1) w
                    else (False, w));
                 file_color = False;
                 w1 = (case stream l1 of
                         None \<Rightarrow> w0
                       | Some s \<Rightarrow>
                           emit_one (stream l1) stream_color color ts (name l1) lv
                             src_file line func m w0);
                 w2 = (case file_sink l1 of
                         None \<Rightarrow> w1
                       | Some fh \<Rightarrow>
                           emit_one (file_sink l1) file_color [] ts (name l1) lv
                             src_file line func m w1);
                 l2 = (if locking l1 then l1\<lparr>lock := LOGGER_MUTEX_UNLOCK (lock l1)\<rparr> else l1)
             in (Some l2, w2))
      | _ \<Rightarrow> (lg, w\<lparr>errno := EINVAL\<rparr>))"

subsection \<open>Reading the trace\<close>

text \<open>The bytes a list of events hands to one stream.\<close>

fun written_to :: "nat \<Rightarrow> io_event list \<Rightarrow> string" where
  "written_to h [] = []"
| "written_to h (Write h' s # es) = (if h' = h then s @ written_to h es else written_to h es)"
| "written_to h (e # es) = written_to h es"

text \<open>The events a call added to the trace: those of the later world after the earlier ones.\<close>

definition new_events :: "world \<Rightarrow> world \<Rightarrow> io_event list" where
  "new_events w w' = drop (length (trace w)) (trace w')"

subsection \<open>The line format\<close>

text \<open>
  One line as the documented format has it: the optional timestamp and name, the level
  padded to eight columns, the source location, the message and a newline, every string
  read up to its terminator; first as the stream writes that produce it, then as bytes.
\<close>

definition line_events ::
  "nat \<Rightarrow> string \<Rightarrow> string option \<Rightarrow> int \<Rightarrow> string \<Rightarrow> int \<Rightarrow> string \<Rightarrow> string
     \<Rightarrow> io_event list" where
  "line_events h ts nm lv src_file line func msg =
     (if c_str ts \<noteq> [] then [Write h (c_str ts @ '' '')] else [])
     @ (case nm of None \<Rightarrow> [] | Some n \<Rightarrow> [Write h (''['' @ c_str n @ ''] '')])
     @ [Write h (fmt_ljust 8 (level_name lv) @ '' ''),
        Write h (c_str src_file @ '':'' @ dec_int line @ '':'' @ c_str func @ '': ''),
        Write h (c_str msg),
        Write h [NEWLINE]]"

definition line_text ::
  "string \<Rightarrow> string option \<Rightarrow> int \<Rightarrow> string \<Rightarrow> int \<Rightarrow> string \<Rightarrow> string \<Rightarrow> string" where
  "line_text ts nm lv src_file line func msg =
     (if c_str ts \<noteq> [] then c_str ts @ '' '' else [])
     @ (case nm of None \<Rightarrow> [] | Some n \<Rightarrow> ''['' @ c_str n @ ''] '')
     @ fmt_ljust 8 (level_name lv) @ '' ''
     @ c_str src_file @ '':'' @ dec_int line @ '':'' @ c_str func @ '': ''
     @ c_str msg @ [NEWLINE]"

text \<open>
  What one sink receives for one message: the line, between the colour sequence and the
  reset sequence when the sink is colourised, then a flush.
\<close>

definition sink_events ::
  "nat \<Rightarrow> bool \<Rightarrow> string \<Rightarrow> string \<Rightarrow> string option \<Rightarrow> int \<Rightarrow> string \<Rightarrow> int \<Rightarrow> string
     \<Rightarrow> string \<Rightarrow> io_event list" where
  "sink_events h colorize color ts nm lv src_file line func msg =
     (if colorize then [Write h (c_str color)] else [])
     @ line_events h ts nm lv src_file line func msg
     @ (if colorize then [Write h (ESC # ''[0m'')] else [])
     @ [Flush h]"

text \<open>The fan-out of one message: the stream sink first, then the file sink, never coloured.\<close>

definition fan_out_events ::
  "Logger \<Rightarrow> int \<Rightarrow> string \<Rightarrow> int \<Rightarrow> string \<Rightarrow> string \<Rightarrow> world \<Rightarrow> io_event list" where
  "fan_out_events l lv src_file line func msg w =
     (case stream l of
        None \<Rightarrow> []
      | Some s \<Rightarrow>
          sink_events s (colors l \<and> isatty w s) (level_color lv)
            (if timestamps l then now_utc w else []) (name l) lv src_file line func msg)
     @ (case file_sink l of
          None \<Rightarrow> []
        | Some f \<Rightarrow>
            sink_events f False []
              (if timestamps l then now_utc w else []) (name l) lv src_file line func msg)"

text \<open>
  The world after the terminal query of an emission, which runs only when colours are
  enabled and a stream is bound.
\<close>

definition tty_probe :: "Logger \<Rightarrow> world \<Rightarrow> world" where
  "tty_probe l w =
     (case stream l of
        None \<Rightarrow> w
      | Some s \<Rightarrow> if colors l then snd (LOGGER_ISATTY s w) else w)"

text \<open>The Logger after the mutex was taken and given back, when locking is enabled.\<close>

definition relock :: "Logger \<Rightarrow> Logger" where
  "relock l =
     (if locking l then l\<lparr>lock := LOGGER_MUTEX_UNLOCK (LOGGER_MUTEX_LOCK (lock l))\<rparr> else l)"

text \<open>The bytes a call handed to one stream, and text free of the escape character.\<close>

definition emitted_to :: "nat \<Rightarrow> world \<Rightarrow> world \<Rightarrow> string" where
  "emitted_to h w w' = written_to h (new_events w w')"

definition plain_text :: "string \<Rightarrow> bool" where
  "plain_text s = (ESC \<notin> set s)"

subsection \<open>A sample logger and world\<close>

text \<open>
  A world in which handle 2 is a terminal and no other handle is (the query leaves code
  25 in \<open>errno\<close>), only the path \<open>app.log\<close> can be opened (as handle 7; any other
  path fails with error code 2), and the library renders \<open>%5d\<close> of 3 as the padded
  number; and a dual-sink logger on it.
\<close>

definition w_demo :: world where
  "w_demo =
     \<lparr>errno = 127, trace = [], isatty = (\<lambda>h. h = 2), isatty_errno = (\<lambda>h. Some 25),
      fopen_result = (\<lambda>p. if p = ''app.log'' then Inr 7 else Inl 2),
      mutex_init_ok = True, now_utc = ''2025-09-03T21:07:15Z'',
      libc_conversion =
        (\<lambda>t args. if t = ''%5d'' \<and> args = [ArgInt 3] then Some ''    3'' else None)\<rparr>"

definition lg_demo :: Logger where
  "lg_demo =
     \<lparr>file_sink = Some 7, stream = Some 2, level = LOG_INFO, name = Some ''demo'',
      timestamps = True, colors = True, owns_file = True, locking = True,
      lock = MtxUnlocked, initialized = True\<rparr>"

section \<open>Properties\<close>

subsection \<open>Unfolding the operations\<close>

lemmas setter_defs =
  logger_set_level_def logger_set_name_def logger_enable_timestamps_def
  logger_enable_colors_def logger_enable_locking_def

lemmas init_defs =
  logger_init_stream_def logger_init_file_def logger_init_dual_def init_common_def
  LOGGER_ISATTY_def LOGGER_MUTEX_INIT_OK_def LOGGER_MUTEX_DESTROY_def fopen_def setvbuf_def

lemma c_str_idem [simp]: "c_str (c_str s) = c_str s"
  by (simp add: c_str_def)

lemma c_str_no_NUL: "NUL \<notin> set s \<Longrightarrow> c_str s = s"
  by (auto simp: c_str_def takeWhile_eq_all_conv)

lemma length_c_str: "length (c_str s) \<le> length s"
  by (simp add: c_str_def length_takeWhile_le)

lemma set_c_str: "x \<notin> set s \<Longrightarrow> x \<notin> set (c_str s)"
  unfolding c_str_def by (auto dest: set_takeWhileD)

lemma written_to_append: "written_to h (xs @ ys) = written_to h xs @ written_to h ys"
  by (induction h xs rule: written_to.induct) simp_all

lemma new_events_append [simp]:
  "trace w' = trace w \<Longrightarrow> new_events w (w'\<lparr>trace := trace w @ es\<rparr>) = es"
  by (simp add: new_events_def)

lemma new_events_same [simp]: "new_events w w = []"
  by (simp add: new_events_def)

lemma trace_tty_probe [simp]: "trace (tty_probe l w) = trace w"
  by (simp add: tty_probe_def LOGGER_ISATTY_def split: option.splits)

lemma tty_probe_no_stream [simp]: "stream l = None \<Longrightarrow> tty_probe l w = w"
  by (simp add: tty_probe_def)

lemma c_str_reset [simp]: "c_str (ESC # ''[0m'') = ESC # ''[0m''"
  by (simp add: c_str_def)

lemma emit_one_Some:
  "emit_one (Some h) cz c ts nm lv sf ln fn msg w
     = w\<lparr>trace := trace w @ sink_events h cz c ts nm lv sf ln fn msg\<rparr>"
  by (simp add: emit_one_def sink_events_def line_events_def Let_def fputs_def fprintf_def
      fputc_def fflush_def split: option.splits)

lemma logger_write_null:
  "logger_write None lv sf ln fn msg w = (None, w\<lparr>errno := EINVAL\<rparr>)"
  "logger_write lg lv sf ln fn None w = (lg, w\<lparr>errno := EINVAL\<rparr>)"
  by (simp_all add: logger_write_def split: option.splits)

lemma logger_write_filtered:
  "lv < level l \<Longrightarrow> logger_write (Some l) lv sf ln fn (Some m) w = (Some l, w)"
  by (simp add: logger_write_def)

lemma logger_write_passed:
  "\<not> lv < level l \<Longrightarrow>
   logger_write (Some l) lv sf ln fn (Some m) w
     = (Some (relock l),
        (tty_probe l w)\<lparr>trace := trace w @ fan_out_events l lv sf ln fn m w\<rparr>)"
  by (auto simp: logger_write_def Let_def emit_one_Some fan_out_events_def relock_def
      tty_probe_def is_tty_def LOGGER_ISATTY_def now_iso8601_def split: option.splits)

lemma vlog_null:
  "logger_vlog_impl None lv sf ln fn fmt args w = Some (None, w\<lparr>errno := EINVAL\<rparr>)"
  "logger_vlog_impl lg lv sf ln fn None args w = Some (lg, w\<lparr>errno := EINVAL\<rparr>)"
  by (simp_all add: logger_vlog_impl_def split: option.splits)

lemma vlog_filtered:
  "lv < level l \<Longrightarrow> logger_vlog_impl (Some l) lv sf ln fn (Some f) args w = Some (Some l, w)"
  by (simp add: logger_vlog_impl_def)

text \<open>Past the filter, the variadic path is the pre-formatted path on the rendered buffer.\<close>

lemma vlog_passed:
  "\<not> lv < level l \<Longrightarrow>
   logger_vlog_impl (Some l) lv sf ln fn (Some f) args w
     = map_option (\<lambda>buf. logger_write (Some l) lv sf ln fn (Some buf) w)
         (vsnprintf 2048 f args w)"
  by (cases "vsnprintf 2048 f args w")
    (simp_all add: logger_vlog_impl_def logger_write_def Let_def case_prod_beta)

lemma vlog_rendered:
  "vsnprintf 2048 f args w = Some m \<Longrightarrow>
   logger_vlog_impl (Some l) lv sf ln fn (Some f) args w
     = Some (logger_write (Some l) lv sf ln fn (Some m) w)"
  by (cases "lv < level l") (simp_all add: vlog_filtered vlog_passed logger_write_filtered)

lemma log_impl_eq:
  "logger_log_impl (Some l) lv sf ln fn (Some f) args w
     = logger_vlog_impl (Some l) lv sf ln fn (Some f) args w"
  by (simp add: logger_log_impl_def)

subsection \<open>Bytes per sink\<close>

lemma written_to_line_events:
  "written_to h (line_events h ts nm lv sf ln fn msg) = line_text ts nm lv sf ln fn msg"
  by (simp add: line_events_def line_text_def written_to_append split: option.splits)

lemma written_to_line_events_other:
  "h' \<noteq> h \<Longrightarrow> written_to h' (line_events h ts nm lv sf ln fn msg) = []"
  by (simp add: line_events_def written_to_append split: option.splits)

lemma written_to_sink_events_same:
  "written_to h (sink_events h cz c ts nm lv sf ln fn msg)
     = (if cz then c_str c else []) @ line_text ts nm lv sf ln fn msg
       @ (if cz then ESC # ''[0m'' else [])"
  by (simp add: sink_events_def written_to_append written_to_line_events)

lemma written_to_sink_events_other:
  "h' \<noteq> h \<Longrightarrow> written_to h' (sink_events h cz c ts nm lv sf ln fn msg) = []"
  by (simp add: sink_events_def written_to_append written_to_line_events_other)

lemma line_text_nonempty: "line_text ts nm lv sf ln fn msg \<noteq> []"
  by (simp add: line_text_def)

lemma line_text_c_str [simp]:
  "line_text ts nm lv sf ln fn (c_str msg) = line_text ts nm lv sf ln fn msg"
  by (simp add: line_text_def)

lemma c_str_level_color [simp]: "c_str (level_color lv) = level_color lv"
  by (simp add: level_color_def c_str_def)

lemma written_to_fan_out:
  "written_to h (fan_out_events l lv sf ln fn m w)
     = (if stream l = Some h
        then (if colors l \<and> isatty w h then level_color lv else [])
             @ line_text (if timestamps l then now_utc w else []) (name l) lv sf ln fn m
             @ (if colors l \<and> isatty w h then ESC # ''[0m'' else [])
        else [])
       @ (if file_sink l = Some h
          then line_text (if timestamps l then now_utc w else []) (name l) lv sf ln fn m
          else [])"
  by (auto simp: fan_out_events_def written_to_append written_to_sink_events_same
      written_to_sink_events_other split: option.splits)

lemma trace_write_passed:
  "\<not> lv < level l \<Longrightarrow>
   new_events w (snd (logger_write (Some l) lv sf ln fn (Some m) w))
     = fan_out_events l lv sf ln fn m w"
  by (simp add: logger_write_passed)

lemma emitted_to_write_passed:
  "\<not> lv < level l \<Longrightarrow>
   emitted_to h w (snd (logger_write (Some l) lv sf ln fn (Some m) w))
     = written_to h (fan_out_events l lv sf ln fn m w)"
  by (simp add: emitted_to_def logger_write_passed)

lemma emitted_to_bound:
  "\<not> lv < level l \<Longrightarrow>
   (emitted_to h w (snd (logger_write (Some l) lv sf ln fn (Some m) w)) \<noteq> [])
     = (stream l = Some h \<or> file_sink l = Some h)"
  by (simp add: emitted_to_write_passed written_to_fan_out line_text_nonempty)

text \<open>The pre-formatted path reads its message up to the terminator.\<close>

lemma sink_events_c_str:
  "sink_events h cz c ts nm lv sf ln fn (c_str m) = sink_events h cz c ts nm lv sf ln fn m"
  by (simp add: sink_events_def line_events_def)

lemma fan_out_events_c_str:
  "fan_out_events l lv sf ln fn (c_str m) w = fan_out_events l lv sf ln fn m w"
  by (simp add: fan_out_events_def sink_events_c_str split: option.splits)

lemma logger_write_c_str:
  "logger_write lg lv sf ln fn (Some (c_str m)) w = logger_write lg lv sf ln fn (Some m) w"
proof (cases lg)
  case None
  then show ?thesis by (simp add: logger_write_null)
next
  case (Some l)
  then show ?thesis
    by (cases "lv < level l")
      (simp_all add: logger_write_filtered logger_write_passed fan_out_events_c_str)
qed

subsection \<open>Where the escape character can come from\<close>

lemma digit_char_digit: "digit_char d \<in> set ''0123456789''"
  unfolding digit_char_def by (rule nth_mem) simp

lemma digit_char_not_ESC: "ESC \<noteq> digit_char d"
  using digit_char_digit [of d] by auto

lemma dec_nat_no_ESC: "ESC \<notin> set (dec_nat n)"
proof (induction n rule: dec_nat.induct)
  case (1 n)
  show ?case
  proof (cases "n < 10")
    case True
    then show ?thesis by (simp add: dec_nat.simps [of n] digit_char_not_ESC)
  next
    case False
    with 1 show ?thesis by (simp add: dec_nat.simps [of n] digit_char_not_ESC)
  qed
qed

lemma dec_int_no_ESC: "ESC \<notin> set (dec_int i)"
  by (simp add: dec_int_def dec_nat_no_ESC)

lemma level_name_no_ESC: "ESC \<notin> set (level_name lv)"
  by (simp add: level_name_def)

lemma fmt_ljust_no_ESC: "ESC \<notin> set s \<Longrightarrow> ESC \<notin> set (fmt_ljust n s)"
  by (simp add: fmt_ljust_def)

lemma line_text_no_ESC:
  assumes "ESC \<notin> set ts" "ESC \<notin> set sf" "ESC \<notin> set fn" "ESC \<notin> set msg"
    "case nm of None \<Rightarrow> True | Some n \<Rightarrow> ESC \<notin> set n"
  shows "ESC \<notin> set (line_text ts nm lv sf ln fn msg)"
  using assms
  by (simp add: line_text_def fmt_ljust_no_ESC level_name_no_ESC dec_int_no_ESC set_c_str
      split: option.splits)

subsection \<open>Templates without conversions\<close>

lemma printf_render_plain: "CHR ''%'' \<notin> set s \<Longrightarrow> printf_render lib s args = Some s"
  by (induction lib s args rule: printf_render.induct) auto

lemma vsnprintf_plain:
  "CHR ''%'' \<notin> set s \<Longrightarrow> length s < n \<Longrightarrow> vsnprintf n s args w = Some (c_str s)"
  using length_c_str [of s] by (simp add: vsnprintf_def printf_render_plain set_c_str)

lemma vlog_undefined:
  "(logger_vlog_impl (Some l) lv sf ln fn (Some fmt) args w = None)
     = (\<not> lv < level l \<and> vsnprintf 2048 fmt args w = None)"
  by (cases "lv < level l") (simp_all add: vlog_filtered vlog_passed)

subsection \<open>The level filter\<close>

text \<open>
  C1. On a logger with minimum level \<open>level l\<close>, an emission at severity \<open>lv\<close> with a
  non-null logger and message. Below the minimum, the pre-formatted and the variadic entry
  points return at once with the logger and the whole world (trace and \<open>errno\<close>) as they
  were. At or above it, whatever any of the three entry points returns extends the trace,
  and the streams that receive bytes are exactly the bound sinks; the variadic entry
  points return the result of the pre-formatted one on the rendered buffer, and fail to
  return one only where C leaves the expansion of the template undefined.
\<close>

theorem emission_level_filter:
  "(lv < level l \<longrightarrow>
      logger_write (Some l) lv sf ln fn (Some m) w = (Some l, w)
      \<and> logger_vlog_impl (Some l) lv sf ln fn (Some fmt) args w = Some (Some l, w)
      \<and> logger_log_impl (Some l) lv sf ln fn (Some fmt) args w = Some (Some l, w))
   \<and> (level l \<le> lv \<longrightarrow>
      (\<forall>r. r = logger_write (Some l) lv sf ln fn (Some m) w
            \<or> logger_vlog_impl (Some l) lv sf ln fn (Some fmt) args w = Some r
            \<or> logger_log_impl (Some l) lv sf ln fn (Some fmt) args w = Some r \<longrightarrow>
          (\<forall>h. (emitted_to h w (snd r) \<noteq> []) = (stream l = Some h \<or> file_sink l = Some h))
          \<and> trace (snd r) = trace w @ new_events w (snd r))
      \<and> logger_vlog_impl (Some l) lv sf ln fn (Some fmt) args w
          = map_option (\<lambda>buf. logger_write (Some l) lv sf ln fn (Some buf) w)
              (vsnprintf 2048 fmt args w)
      \<and> logger_log_impl (Some l) lv sf ln fn (Some fmt) args w
          = logger_vlog_impl (Some l) lv sf ln fn (Some fmt) args w
      \<and> (logger_vlog_impl (Some l) lv sf ln fn (Some fmt) args w = None)
          = (vsnprintf 2048 fmt args w = None))"
proof (intro conjI impI allI)
  assume "lv < level l"
  then show "logger_write (Some l) lv sf ln fn (Some m) w = (Some l, w)"
    and "logger_vlog_impl (Some l) lv sf ln fn (Some fmt) args w = Some (Some l, w)"
    and "logger_log_impl (Some l) lv sf ln fn (Some fmt) args w = Some (Some l, w)"
    by (simp_all add: logger_write_filtered vlog_filtered log_impl_eq)
next
  assume pass: "level l \<le> lv"
  show "logger_vlog_impl (Some l) lv sf ln fn (Some fmt) args w
          = map_option (\<lambda>buf. logger_write (Some l) lv sf ln fn (Some buf) w)
              (vsnprintf 2048 fmt args w)"
    using pass by (simp add: vlog_passed)
  show "logger_log_impl (Some l) lv sf ln fn (Some fmt) args w
          = logger_vlog_impl (Some l) lv sf ln fn (Some fmt) args w"
    by (rule log_impl_eq)
  show "(logger_vlog_impl (Some l) lv sf ln fn (Some fmt) args w = None)
          = (vsnprintf 2048 fmt args w = None)"
    using pass by (simp add: vlog_undefined)
  fix r
  assume "r = logger_write (Some l) lv sf ln fn (Some m) w
            \<or> logger_vlog_impl (Some l) lv sf ln fn (Some fmt) args w = Some r
            \<or> logger_log_impl (Some l) lv sf ln fn (Some fmt) args w = Some r"
  then obtain buf where r: "r = logger_write (Some l) lv sf ln fn (Some buf) w"
    using pass by (auto simp: log_impl_eq vlog_passed)
  show "trace (snd r) = trace w @ new_events w (snd r)"
    using pass by (simp add: r logger_write_passed)
  fix h
  show "(emitted_to h w (snd r) \<noteq> []) = (stream l = Some h \<or> file_sink l = Some h)"
    using pass by (simp add: r emitted_to_bound)
qed

text \<open>
  On the sample logger (minimum INFO): a DEBUG call is dropped; an ERROR call through the
  variadic entry point with the template \<open>n=%5d\<close> returns and reaches both sinks.
\<close>

theorem emission_level_filter_witness:
  "logger_write (Some lg_demo) LOG_DEBUG ''main.c'' 12 ''main'' (Some ''hello'') w_demo
     = (Some lg_demo, w_demo)
   \<and> logger_log_impl (Some lg_demo) LOG_DEBUG ''main.c'' 12 ''main'' (Some ''n=%5d'') [ArgInt 3]
       w_demo
     = Some (Some lg_demo, w_demo)
   \<and> (\<exists>r. logger_log_impl (Some lg_demo) LOG_ERROR ''main.c'' 12 ''main'' (Some ''n=%5d'')
             [ArgInt 3] w_demo = Some r
          \<and> emitted_to 7 w_demo (snd r) \<noteq> [] \<and> emitted_to 2 w_demo (snd r) \<noteq> [])"
proof -
  have low: "LOG_DEBUG < level lg_demo" and high: "level lg_demo \<le> LOG_ERROR"
    by (simp_all add: lg_demo_def)
  have sinks: "stream lg_demo = Some 2" "file_sink lg_demo = Some 7"
    by (simp_all add: lg_demo_def)
  have rendered: "vsnprintf 2048 ''n=%5d'' [ArgInt 3] w_demo \<noteq> None"
    by (simp add: vsnprintf_def c_str_def w_demo_def)
  note filtered = emission_level_filter [where lv = LOG_DEBUG and l = lg_demo
      and sf = "''main.c''" and ln = 12 and fn = "''main''" and m = "''hello''"
      and fmt = "''n=%5d''" and args = "[ArgInt 3]" and w = w_demo]
  note passed = emission_level_filter [where lv = LOG_ERROR and l = lg_demo
      and sf = "''main.c''" and ln = 12 and fn = "''main''" and m = "''hello''"
      and fmt = "''n=%5d''" and args = "[ArgInt 3]" and w = w_demo]
  let ?log = "logger_log_impl (Some lg_demo) LOG_ERROR ''main.c'' 12 ''main'' (Some ''n=%5d'')
      [ArgInt 3] w_demo"
  let ?vlog = "logger_vlog_impl (Some lg_demo) LOG_ERROR ''main.c'' 12 ''main'' (Some ''n=%5d'')
      [ArgInt 3] w_demo"
  from passed high have "?log = ?vlog"
    and "(?vlog = None) = (vsnprintf 2048 ''n=%5d'' [ArgInt 3] w_demo = None)"
    by blast+
  with rendered have "?log \<noteq> None" by simp
  then obtain r where r: "?log = Some r" by blast
  with passed high sinks have "emitted_to 7 w_demo (snd r) \<noteq> []"
    and "emitted_to 2 w_demo (snd r) \<noteq> []"
    by blast+
  with filtered low r show ?thesis by blast
qed

subsection \<open>Emission without sinks\<close>






subsection \<open>Colours\<close>

text \<open>
  The message is written to every sink as the caller gave it: an escape sequence inside
  it reaches the file sink, with colours enabled or not.
\<close>

theorem colour_policy_counterexample:
  "level lg_demo \<le> LOG_ERROR \<and> file_sink lg_demo = Some 7 \<and> stream lg_demo = Some 2
   \<and> emitted_to 7 w_demo
       (snd (logger_write (Some lg_demo) LOG_ERROR ''main.c'' 12 ''main''
               (Some (ESC # ''[31mred'')) w_demo))
     = ''2025-09-03T21:07:15Z [demo] ERROR    main.c:12:main: '' @ ESC # ''[31mred'' @ [NEWLINE]"
proof -
  have pass: "\<not> LOG_ERROR < level lg_demo" by (simp add: lg_demo_def)
  have d: "dec_int 12 = ''12''" by code_simp
  show ?thesis
    by (simp add: emitted_to_write_passed [OF pass] written_to_fan_out)
      (simp add: lg_demo_def w_demo_def line_text_def c_str_def fmt_ljust_def level_name_def d
        eval_nat_numeral)
qed

text \<open>
  C2, amended. For a call that passes the level filter, with \<open>w'\<close> the world after it:
  the new events are those of the stream sink followed by those of the file sink; a file
  sink distinct from the stream receives exactly the line, whatever the colour toggle and
  whatever the stream receives in the same call; a stream sink distinct from the file
  receives the line between the level's colour sequence and the reset sequence if colours
  are enabled and the stream is a terminal, and the bare line otherwise. Every colour
  sequence starts with \<open>ESC [\<close>. So when the timestamp and the caller's own text (name,
  source location, message) are free of the escape character, the file sink receives
  none, and the stream sink receives one iff colours are enabled and it is a terminal.
  The variadic entry points do the same with the rendered buffer as the message.
\<close>

theorem colour_policy:
  assumes "level l \<le> lv"
  shows
    "(let w' = snd (logger_write (Some l) lv sf ln fn (Some m) w);
          ts = (if timestamps l then now_utc w else []);
          line = line_text ts (name l) lv sf ln fn m;
          on = (\<lambda>s. colors l \<and> isatty w s)
      in new_events w w'
           = (case stream l of
                None \<Rightarrow> []
              | Some s \<Rightarrow> sink_events s (on s) (level_color lv) ts (name l) lv sf ln fn m)
             @ (case file_sink l of
                  None \<Rightarrow> []
                | Some f \<Rightarrow> sink_events f False [] ts (name l) lv sf ln fn m)
         \<and> (\<forall>f. file_sink l = Some f \<and> stream l \<noteq> Some f \<longrightarrow> emitted_to f w w' = line)
         \<and> (\<forall>s. stream l = Some s \<and> file_sink l \<noteq> Some s \<longrightarrow>
               emitted_to s w w'
                 = (if on s then level_color lv @ line @ ESC # ''[0m'' else line))
         \<and> take 2 (level_color lv) = [ESC, CHR ''['']
         \<and> (plain_text ts \<and> plain_text sf \<and> plain_text fn \<and> plain_text m
              \<and> (case name l of None \<Rightarrow> True | Some n \<Rightarrow> plain_text n)
              \<longrightarrow> (\<forall>f. file_sink l = Some f \<and> stream l \<noteq> Some f \<longrightarrow>
                     plain_text (emitted_to f w w'))
                \<and> (\<forall>s. stream l = Some s \<and> file_sink l \<noteq> Some s \<longrightarrow>
                     (\<not> plain_text (emitted_to s w w')) = on s))
         \<and> logger_vlog_impl (Some l) lv sf ln fn (Some fmt) args w
             = map_option (\<lambda>buf. logger_write (Some l) lv sf ln fn (Some buf) w)
                 (vsnprintf 2048 fmt args w)
         \<and> logger_log_impl (Some l) lv sf ln fn (Some fmt) args w
             = logger_vlog_impl (Some l) lv sf ln fn (Some fmt) args w)"
proof -
  let ?w' = "snd (logger_write (Some l) lv sf ln fn (Some m) w)"
  let ?ts = "if timestamps l then now_utc w else []"
  let ?line = "line_text ?ts (name l) lv sf ln fn m"
  from assms have pass: "\<not> lv < level l" by simp
  have ev: "new_events w ?w' = fan_out_events l lv sf ln fn m w"
    using pass by (rule trace_write_passed)
  have file_bytes: "emitted_to f w ?w' = ?line"
    if "file_sink l = Some f" "stream l \<noteq> Some f" for f
    using that pass by (simp add: emitted_to_write_passed written_to_fan_out)
  have stream_bytes: "emitted_to s w ?w'
      = (if colors l \<and> isatty w s then level_color lv @ ?line @ ESC # ''[0m'' else ?line)"
    if "stream l = Some s" "file_sink l \<noteq> Some s" for s
    using that pass by (simp add: emitted_to_write_passed written_to_fan_out)
  have intro: "take 2 (level_color lv) = [ESC, CHR ''['']"
    by (simp add: level_color_def)
  have plain: "plain_text ?line"
    if "plain_text ?ts \<and> plain_text sf \<and> plain_text fn \<and> plain_text m
        \<and> (case name l of None \<Rightarrow> True | Some n \<Rightarrow> plain_text n)"
    using that unfolding plain_text_def by (intro line_text_no_ESC) simp_all
  have esc: "(\<forall>f. file_sink l = Some f \<and> stream l \<noteq> Some f \<longrightarrow> plain_text (emitted_to f w ?w'))
      \<and> (\<forall>s. stream l = Some s \<and> file_sink l \<noteq> Some s \<longrightarrow>
             (\<not> plain_text (emitted_to s w ?w')) = (colors l \<and> isatty w s))"
    if "plain_text ?ts \<and> plain_text sf \<and> plain_text fn \<and> plain_text m
        \<and> (case name l of None \<Rightarrow> True | Some n \<Rightarrow> plain_text n)"
    using plain [OF that] by (auto simp: file_bytes stream_bytes plain_text_def level_color_def)
  have var: "logger_vlog_impl (Some l) lv sf ln fn (Some fmt) args w
             = map_option (\<lambda>buf. logger_write (Some l) lv sf ln fn (Some buf) w)
                 (vsnprintf 2048 fmt args w)"
    using pass by (rule vlog_passed)
  show ?thesis
    unfolding Let_def
    using ev file_bytes stream_bytes intro esc var
    by (simp add: fan_out_events_def log_impl_eq)
qed

text \<open>
  On the sample logger, colours enabled and handle 2 a terminal: an ERROR call with a
  plain message leaves the file (handle 7) free of escapes and puts escapes on the
  terminal.
\<close>

theorem colour_policy_witness:
  "level lg_demo \<le> LOG_ERROR
   \<and> plain_text (emitted_to 7 w_demo
         (snd (logger_write (Some lg_demo) LOG_ERROR ''main.c'' 12 ''main'' (Some ''hello'') w_demo)))
   \<and> \<not> plain_text (emitted_to 2 w_demo
         (snd (logger_write (Some lg_demo) LOG_ERROR ''main.c'' 12 ''main'' (Some ''hello'') w_demo)))"
proof -
  have pass: "level lg_demo \<le> LOG_ERROR"
    by (simp add: lg_demo_def)
  have payload: "plain_text (if timestamps lg_demo then now_utc w_demo else [])
      \<and> plain_text ''main.c'' \<and> plain_text ''main'' \<and> plain_text ''hello''
      \<and> (case name lg_demo of None \<Rightarrow> True | Some n \<Rightarrow> plain_text n)"
    by (simp add: plain_text_def lg_demo_def w_demo_def)
  have sinks: "file_sink lg_demo = Some 7" "stream lg_demo = Some 2"
    "colors lg_demo" "isatty w_demo 2"
    by (simp_all add: lg_demo_def w_demo_def)
  from colour_policy [OF pass, where sf = "''main.c''" and ln = 12 and fn = "''main''"
      and m = "''hello''" and fmt = "''hello''" and args = "[]" and w = w_demo]
  have "(\<forall>f. file_sink lg_demo = Some f \<and> stream lg_demo \<noteq> Some f \<longrightarrow>
           plain_text (emitted_to f w_demo
             (snd (logger_write (Some lg_demo) LOG_ERROR ''main.c'' 12 ''main'' (Some ''hello'')
                w_demo))))
       \<and> (\<forall>s. stream lg_demo = Some s \<and> file_sink lg_demo \<noteq> Some s \<longrightarrow>
           (\<not> plain_text (emitted_to s w_demo
             (snd (logger_write (Some lg_demo) LOG_ERROR ''main.c'' 12 ''main'' (Some ''hello'')
                w_demo))))
            = (colors lg_demo \<and> isatty w_demo s))"
    using payload unfolding Let_def by blast
  with pass sinks show ?thesis by simp
qed

subsection \<open>Initialisation\<close>

text \<open>
  C3. When the file initializer is called with a non-null logger and path, reaches the
  open (the mutex was set up) and the open fails with code \<open>e\<close>: it returns failure, the
  mutex that \<open>init_common\<close> had set up is destroyed in the returned Logger, no file is
  bound, and the world is the one before the call with \<open>errno = e\<close>, the code of the
  failed open.
\<close>

theorem init_file_open_failure:
  assumes "mutex_init_ok w" and "fopen_result w p = Inl e"
  shows "\<exists>l1 l'. init_common (Some l) lv w = (True, Some l1, w) \<and> lock l1 = MtxUnlocked
           \<and> logger_init_file (Some l) (Some p) lv w = (False, Some l', w\<lparr>errno := e\<rparr>)
           \<and> lock l' = MtxDestroyed \<and> file_sink l' = None \<and> \<not> owns_file l'"
  using assms by (simp add: init_defs Logger_zero_def)

theorem init_file_open_failure_witness:
  "\<exists>l1 l'. init_common (Some lg_demo) LOG_INFO w_demo = (True, Some l1, w_demo)
           \<and> lock l1 = MtxUnlocked
           \<and> logger_init_file (Some lg_demo) (Some ''bad/app.log'') LOG_INFO w_demo
               = (False, Some l', w_demo\<lparr>errno := 2\<rparr>)
           \<and> lock l' = MtxDestroyed \<and> file_sink l' = None \<and> \<not> owns_file l'"
  using init_file_open_failure [of w_demo "''bad/app.log''" 2 lg_demo LOG_INFO]
  by (simp add: w_demo_def)

text \<open>
  The flag after a failed file open, for every Logger passed in: \<open>init_common\<close> has set
  it, and the failure branch destroys the mutex and returns without clearing it.
\<close>

lemma init_file_open_failure_keeps_initialized:
  "mutex_init_ok w \<Longrightarrow> fopen_result w p = Inl e \<Longrightarrow>
   fst (logger_init_file (Some l) (Some p) lv w) = False
   \<and> map_option initialized (fst (snd (logger_init_file (Some l) (Some p) lv w))) = Some True"
  by (simp add: init_defs Logger_zero_def)

text \<open>
  C4. The file initializer on a zero-filled Logger and a path that cannot be opened
  returns failure, and the Logger it leaves has \<open>initialized\<close> true and a destroyed
  mutex: the flag is true after a failed initializer.
\<close>

theorem init_file_open_failure_sets_flag:
  "fst (logger_init_file (Some Logger_zero)
          (Some ''this/path/definitely/does/not/exist/app.log'') LOG_INFO w_demo) = False
   \<and> map_option initialized
       (fst (snd (logger_init_file (Some Logger_zero)
                    (Some ''this/path/definitely/does/not/exist/app.log'') LOG_INFO w_demo)))
     = Some True
   \<and> map_option lock
       (fst (snd (logger_init_file (Some Logger_zero)
                    (Some ''this/path/definitely/does/not/exist/app.log'') LOG_INFO w_demo)))
     = Some MtxDestroyed"
  by (simp add: init_defs Logger_zero_def w_demo_def)

text \<open>
  On every other path the flag is as the initializers' results say: true after a success,
  and after a failure either false or, where a null argument stopped the call before the
  Logger was touched, whatever it was.
\<close>

lemma init_stream_flag:
  "fst (logger_init_stream lg strm lv w) \<Longrightarrow>
     \<exists>l'. fst (snd (logger_init_stream lg strm lv w)) = Some l' \<and> initialized l'"
  "\<not> fst (logger_init_stream lg strm lv w) \<Longrightarrow>
     fst (snd (logger_init_stream lg strm lv w)) = lg
     \<or> (\<exists>l'. fst (snd (logger_init_stream lg strm lv w)) = Some l' \<and> \<not> initialized l')"
  by (auto simp: init_defs Logger_zero_def split: option.splits if_splits)

lemma init_file_flag:
  assumes "\<forall>p. path = Some p \<longrightarrow> (\<exists>h. fopen_result w p = Inr h)"
  shows "fst (logger_init_file lg path lv w) \<Longrightarrow>
     \<exists>l'. fst (snd (logger_init_file lg path lv w)) = Some l' \<and> initialized l'"
  "\<not> fst (logger_init_file lg path lv w) \<Longrightarrow>
     fst (snd (logger_init_file lg path lv w)) = lg
     \<or> (\<exists>l'. fst (snd (logger_init_file lg path lv w)) = Some l' \<and> \<not> initialized l')"
  using assms by (auto simp: init_defs Logger_zero_def split: option.splits if_splits sum.splits)

lemma init_dual_flag:
  assumes "\<forall>p. path = Some p \<longrightarrow> (\<exists>h. fopen_result w p = Inr h)"
  shows "fst (logger_init_dual lg path strm lv w) \<Longrightarrow>
     \<exists>l'. fst (snd (logger_init_dual lg path strm lv w)) = Some l' \<and> initialized l'"
  "\<not> fst (logger_init_dual lg path strm lv w) \<Longrightarrow>
     fst (snd (logger_init_dual lg path strm lv w)) = lg
     \<or> (\<exists>l'. fst (snd (logger_init_dual lg path strm lv w)) = Some l' \<and> \<not> initialized l')"
  using assms by (auto simp: init_defs Logger_zero_def split: option.splits if_splits sum.splits)

text \<open>
  C6. An initializer called with a null required argument (the logger for all three, the
  stream for the stream and dual initializers, the path for the file and dual
  initializers) returns failure; the Logger pointee, if there is one, is the one passed
  in, and the world is the one before the call with \<open>errno = EINVAL\<close>: the trace has no
  new event (no open, no \<open>setvbuf\<close>) and no mutex was set up.
\<close>

theorem init_null_arguments:
  "logger_init_stream None strm lv w = (False, None, w\<lparr>errno := EINVAL\<rparr>)
   \<and> logger_init_stream lg None lv w = (False, lg, w\<lparr>errno := EINVAL\<rparr>)
   \<and> logger_init_file None path lv w = (False, None, w\<lparr>errno := EINVAL\<rparr>)
   \<and> logger_init_file lg None lv w = (False, lg, w\<lparr>errno := EINVAL\<rparr>)
   \<and> logger_init_dual None path strm lv w = (False, None, w\<lparr>errno := EINVAL\<rparr>)
   \<and> logger_init_dual lg None strm lv w = (False, lg, w\<lparr>errno := EINVAL\<rparr>)
   \<and> logger_init_dual lg path None lv w = (False, lg, w\<lparr>errno := EINVAL\<rparr>)"
  by (simp add: init_defs split: option.splits)

subsection \<open>Shutdown\<close>


subsection \<open>Setters\<close>

text \<open>
  C7. Each of the five setters, called with a null logger, stores the invalid-argument
  code in \<open>errno\<close> and changes nothing else; called with a valid logger it stores the
  supplied value in its one field, leaves every other field as it was, and leaves the
  world, \<open>errno\<close> included, as it was.
\<close>

theorem setters_frame:
  "logger_set_level None lv w = (None, w\<lparr>errno := EINVAL\<rparr>)
   \<and> logger_set_name None nm w = (None, w\<lparr>errno := EINVAL\<rparr>)
   \<and> logger_enable_timestamps None b w = (None, w\<lparr>errno := EINVAL\<rparr>)
   \<and> logger_enable_colors None b w = (None, w\<lparr>errno := EINVAL\<rparr>)
   \<and> logger_enable_locking None b w = (None, w\<lparr>errno := EINVAL\<rparr>)
   \<and> logger_set_level (Some l) lv w = (Some (l\<lparr>level := lv\<rparr>), w)
   \<and> logger_set_name (Some l) nm w = (Some (l\<lparr>name := nm\<rparr>), w)
   \<and> logger_enable_timestamps (Some l) b w = (Some (l\<lparr>timestamps := b\<rparr>), w)
   \<and> logger_enable_colors (Some l) b w = (Some (l\<lparr>colors := b\<rparr>), w)
   \<and> logger_enable_locking (Some l) b w = (Some (l\<lparr>locking := b\<rparr>), w)"
  by (simp add: setter_defs)

subsection \<open>The two entry points\<close>

text \<open>
  The variadic path renders into a buffer of 2048 bytes, the pre-formatted path writes the
  caller's string as it is: on a template of 2048 plain characters the two differ.
\<close>

theorem entry_points_agree_counterexample:
  "CHR ''%'' \<notin> set (replicate 2048 CHR ''a'')
   \<and> logger_vlog_impl (Some lg_demo) LOG_ERROR ''main.c'' 12 ''main''
         (Some (replicate 2048 CHR ''a'')) [] w_demo
       \<noteq> Some (logger_write (Some lg_demo) LOG_ERROR ''main.c'' 12 ''main''
                 (Some (replicate 2048 CHR ''a'')) w_demo)"
proof -
  let ?long = "replicate 2048 CHR ''a''"
  have pass: "\<not> LOG_ERROR < level lg_demo" by (simp add: lg_demo_def)
  have plain: "c_str (replicate n CHR ''a'') = replicate n CHR ''a''" for n
    by (rule c_str_no_NUL) simp
  have r: "vsnprintf 2048 ?long [] w_demo = Some (replicate 2047 CHR ''a'')"
    by (simp add: vsnprintf_def printf_render_plain plain)
  have v: "logger_vlog_impl (Some lg_demo) LOG_ERROR ''main.c'' 12 ''main'' (Some ?long) [] w_demo
      = Some (logger_write (Some lg_demo) LOG_ERROR ''main.c'' 12 ''main''
                (Some (replicate 2047 CHR ''a'')) w_demo)"
    using r by (rule vlog_rendered)
  have len: "length (emitted_to 7 w_demo (snd (logger_write (Some lg_demo) LOG_ERROR ''main.c'' 12
        ''main'' (Some (replicate n CHR ''a'')) w_demo)))
      = length (line_text (now_utc w_demo) (Some ''demo'') LOG_ERROR ''main.c'' 12 ''main'' []) + n"
    for n
    using pass
    by (simp add: emitted_to_write_passed written_to_fan_out lg_demo_def line_text_def plain)
      (simp add: c_str_def)
  have "logger_write (Some lg_demo) LOG_ERROR ''main.c'' 12 ''main''
          (Some (replicate 2047 CHR ''a'')) w_demo
        \<noteq> logger_write (Some lg_demo) LOG_ERROR ''main.c'' 12 ''main'' (Some ?long) w_demo"
    using len [of 2047] len [of 2048] by auto
  with v show ?thesis by simp
qed

text \<open>
  C8, amended. For every logger pointer, logger state and world, and every message of at
  most 2047 bytes without the character \<open>%\<close>: the variadic entry points, called with the
  message as the template and any arguments, return what the pre-formatted entry point
  returns on that message: the same Logger and the same world (trace and \<open>errno\<close>).
\<close>

theorem entry_points_agree:
  assumes "CHR ''%'' \<notin> set s" and "length s \<le> 2047"
  shows "logger_vlog_impl lg lv sf ln fn (Some s) args w
           = Some (logger_write lg lv sf ln fn (Some s) w)
         \<and> logger_log_impl lg lv sf ln fn (Some s) args w
           = Some (logger_write lg lv sf ln fn (Some s) w)"
proof (cases lg)
  case None
  then show ?thesis by (simp add: vlog_null logger_write_null logger_log_impl_def)
next
  case (Some l)
  from assms have "vsnprintf 2048 s args w = Some (c_str s)" by (simp add: vsnprintf_plain)
  then have "logger_vlog_impl (Some l) lv sf ln fn (Some s) args w
      = Some (logger_write (Some l) lv sf ln fn (Some s) w)"
    by (simp add: vlog_rendered logger_write_c_str)
  with Some show ?thesis by (simp add: log_impl_eq)
qed

theorem entry_points_agree_witness:
  "CHR ''%'' \<notin> set ''hello'' \<and> length ''hello'' \<le> 2047
   \<and> logger_vlog_impl (Some lg_demo) LOG_ERROR ''main.c'' 12 ''main'' (Some ''hello'') [] w_demo
     = Some (logger_write (Some lg_demo) LOG_ERROR ''main.c'' 12 ''main'' (Some ''hello'') w_demo)"
  using entry_points_agree [where s = "''hello''" and lg = "Some lg_demo" and lv = LOG_ERROR
      and sf = "''main.c''" and ln = 12 and fn = "''main''" and args = "[]" and w = w_demo]
  by simp

subsection \<open>Level names\<close>

text \<open>
  C9. The five levels render as DEBUG, INFO, WARNING, ERROR and CRITICAL, and any other
  level value as the placeholder \<open>LVL?\<close>. In the bytes \<open>emit_one\<close> hands to a sink the
  name stands left-justified in a field of at least eight columns, padded with spaces,
  and the line is written in full whatever the level value is (every string argument
  read up to its terminator).
\<close>

theorem level_rendering:
  "level_name LOG_DEBUG = ''DEBUG'' \<and> level_name LOG_INFO = ''INFO''
   \<and> level_name LOG_WARNING = ''WARNING'' \<and> level_name LOG_ERROR = ''ERROR''
   \<and> level_name LOG_CRITICAL = ''CRITICAL''
   \<and> (lv \<notin> {LOG_DEBUG, LOG_INFO, LOG_WARNING, LOG_ERROR, LOG_CRITICAL} \<longrightarrow>
        level_name lv = ''LVL?'')
   \<and> fmt_ljust 8 (level_name lv) = level_name lv @ replicate (8 - length (level_name lv)) CHR '' ''
   \<and> 8 \<le> length (fmt_ljust 8 (level_name lv))
   \<and> emitted_to h w (emit_one (Some h) cz c ts nm lv sf ln fn msg w)
       = (if cz then c_str c else [])
         @ (if c_str ts \<noteq> [] then c_str ts @ '' '' else [])
         @ (case nm of None \<Rightarrow> [] | Some n \<Rightarrow> ''['' @ c_str n @ ''] '')
         @ fmt_ljust 8 (level_name lv) @ '' ''
         @ c_str sf @ '':'' @ dec_int ln @ '':'' @ c_str fn @ '': '' @ c_str msg @ [NEWLINE]
         @ (if cz then ESC # ''[0m'' else [])
   \<and> (NUL \<notin> set c \<union> set ts \<union> set sf \<union> set fn \<union> set msg
        \<union> (case nm of None \<Rightarrow> {} | Some n \<Rightarrow> set n) \<longrightarrow>
      emitted_to h w (emit_one (Some h) cz c ts nm lv sf ln fn msg w)
       = (if cz then c else [])
         @ (if ts \<noteq> [] then ts @ '' '' else [])
         @ (case nm of None \<Rightarrow> [] | Some n \<Rightarrow> ''['' @ n @ ''] '')
         @ fmt_ljust 8 (level_name lv) @ '' ''
         @ sf @ '':'' @ dec_int ln @ '':'' @ fn @ '': '' @ msg @ [NEWLINE]
         @ (if cz then ESC # ''[0m'' else []))"
  by (auto simp: level_name_def fmt_ljust_def emitted_to_def emit_one_Some
      written_to_sink_events_same line_text_def c_str_no_NUL split: option.splits)

theorem level_rendering_witness:
  "level_name 35 = ''LVL?''
   \<and> emitted_to 7 w_demo
       (emit_one (Some 7) False [] [] None 35 ''main.c'' 12 ''main'' ''hello'' w_demo)
     = ''LVL?     main.c:12:main: hello'' @ [NEWLINE]"
proof -
  have d: "dec_int 12 = ''12''" by code_simp
  show ?thesis
    using level_rendering [where lv = 35 and h = 7 and w = w_demo and cz = False and c = "[]"
        and ts = "[]" and nm = None and sf = "''main.c''" and ln = 12 and fn = "''main''"
        and msg = "''hello''"]
    by (simp add: d level_name_def eval_nat_numeral c_str_def)
qed

end
